theory Spec2Isabelle
  imports Complex_Main "HOL-Library.Multiset" "HOL-Library.Product_Lexorder"
begin

section \<open>Python floats\<close>

text \<open>
  The survey code computes with Python floats. A float is either a finite number or one
  of the three special values. Finite arithmetic is idealised: a finite float is a real
  number, and rounding and overflow of finite results are not modelled. The special
  values follow IEEE 754 as Python's \<^verbatim>\<open>float\<close> and \<^verbatim>\<open>math\<close> module expose it; the two
  zeros are not distinguished.
\<close>

datatype pyfloat = Fin real | PInf | NInf | NaN

datatype error =
    MathDomainError       \<comment> \<open>\<^verbatim>\<open>ValueError: math domain error\<close>, raised by \<^verbatim>\<open>math.sin/cos/acos\<close>\<close>
  | ZeroDivisionError     \<comment> \<open>float division by zero\<close>
  | SurveySheetMissing    \<comment> \<open>\<^verbatim>\<open>ValueError\<close> of utils.py line 69\<close>
  | SurveyColumnsMissing  \<comment> \<open>\<^verbatim>\<open>ValueError\<close> of utils.py line 74\<close>
  | FloatValueError       \<comment> \<open>\<^verbatim>\<open>ValueError\<close> of \<^verbatim>\<open>float(s)\<close> on a string that is no number\<close>
  | FloatTypeError        \<comment> \<open>\<^verbatim>\<open>TypeError\<close> of \<^verbatim>\<open>float(x)\<close> on an object that is no number and no string\<close>

definition bind_r :: "error + 'a \<Rightarrow> ('a \<Rightarrow> error + 'b) \<Rightarrow> error + 'b" where
  "bind_r m f = (case m of Inl e \<Rightarrow> Inl e | Inr v \<Rightarrow> f v)"

fun is_finite :: "pyfloat \<Rightarrow> bool" where
  "is_finite (Fin x) = True"
| "is_finite x = False"

definition is_inf :: "pyfloat \<Rightarrow> bool" where
  "is_inf x = (x = PInf \<or> x = NInf)"

fun fneg :: "pyfloat \<Rightarrow> pyfloat" where
  "fneg (Fin x) = Fin (- x)"
| "fneg PInf = NInf"
| "fneg NInf = PInf"
| "fneg NaN = NaN"

fun fadd :: "pyfloat \<Rightarrow> pyfloat \<Rightarrow> pyfloat" where
  "fadd (Fin a) (Fin b) = Fin (a + b)"
| "fadd NaN y = NaN"
| "fadd x NaN = NaN"
| "fadd PInf NInf = NaN"
| "fadd NInf PInf = NaN"
| "fadd PInf y = PInf"
| "fadd NInf y = NInf"
| "fadd (Fin a) y = y"

definition fsub :: "pyfloat \<Rightarrow> pyfloat \<Rightarrow> pyfloat" where
  "fsub x y = fadd x (fneg y)"

text \<open>The product of an infinity with a finite number: zero gives NaN, otherwise the sign decides.\<close>

definition scale_inf :: "pyfloat \<Rightarrow> real \<Rightarrow> pyfloat" where
  "scale_inf i a = (if a = 0 then NaN else if 0 < a then i else fneg i)"

fun fmul :: "pyfloat \<Rightarrow> pyfloat \<Rightarrow> pyfloat" where
  "fmul (Fin a) (Fin b) = Fin (a * b)"
| "fmul NaN y = NaN"
| "fmul x NaN = NaN"
| "fmul (Fin a) y = scale_inf y a"
| "fmul x (Fin b) = scale_inf x b"
| "fmul PInf y = y"
| "fmul NInf y = fneg y"

text \<open>
  IEEE division by a divisor other than zero. A finite number over an infinity is zero,
  an infinity over an infinity is NaN.
\<close>

fun fdiv :: "pyfloat \<Rightarrow> pyfloat \<Rightarrow> pyfloat" where
  "fdiv (Fin a) (Fin b) = Fin (a / b)"
| "fdiv NaN y = NaN"
| "fdiv x NaN = NaN"
| "fdiv (Fin a) y = Fin 0"
| "fdiv x (Fin b) = scale_inf x b"
| "fdiv x y = NaN"

text \<open>Comparisons: every comparison with NaN is false.\<close>

fun flt :: "pyfloat \<Rightarrow> pyfloat \<Rightarrow> bool" where
  "flt (Fin a) (Fin b) = (a < b)"
| "flt NaN y = False"
| "flt x NaN = False"
| "flt x NInf = False"
| "flt NInf y = True"
| "flt PInf y = False"
| "flt (Fin a) PInf = True"

definition fgt :: "pyfloat \<Rightarrow> pyfloat \<Rightarrow> bool" where
  "fgt x y = flt y x"

definition feq :: "pyfloat \<Rightarrow> pyfloat \<Rightarrow> bool" where
  "feq x y = (x \<noteq> NaN \<and> x = y)"

text \<open>
  Python's \<^verbatim>\<open>/\<close> on floats raises \<^verbatim>\<open>ZeroDivisionError\<close> when the divisor is zero,
  whatever the dividend.
\<close>

definition py_div :: "pyfloat \<Rightarrow> pyfloat \<Rightarrow> error + pyfloat" where
  "py_div x y = (if feq y (Fin 0) then Inl ZeroDivisionError else Inr (fdiv x y))"

text \<open>
  The \<^verbatim>\<open>math\<close> module: \<^verbatim>\<open>radians\<close> and \<^verbatim>\<open>degrees\<close> multiply by a constant;
  \<^verbatim>\<open>sin\<close> and \<^verbatim>\<open>cos\<close> raise on an infinity and pass NaN through; \<^verbatim>\<open>acos\<close> raises outside
  \<open>[-1, 1]\<close> and passes NaN through. \<^verbatim>\<open>numpy.tan\<close> never raises: an infinity gives NaN.
\<close>

definition radians :: "pyfloat \<Rightarrow> pyfloat" where
  "radians x = fmul x (Fin (pi / 180))"

definition degrees :: "pyfloat \<Rightarrow> pyfloat" where
  "degrees x = fmul x (Fin (180 / pi))"

fun sin_py :: "pyfloat \<Rightarrow> error + pyfloat" where
  "sin_py (Fin x) = Inr (Fin (sin x))"
| "sin_py NaN = Inr NaN"
| "sin_py x = Inl MathDomainError"

fun cos_py :: "pyfloat \<Rightarrow> error + pyfloat" where
  "cos_py (Fin x) = Inr (Fin (cos x))"
| "cos_py NaN = Inr NaN"
| "cos_py x = Inl MathDomainError"

fun acos_py :: "pyfloat \<Rightarrow> error + pyfloat" where
  "acos_py (Fin x) = (if - 1 \<le> x \<and> x \<le> 1 then Inr (Fin (arccos x)) else Inl MathDomainError)"
| "acos_py NaN = Inr NaN"
| "acos_py x = Inl MathDomainError"

fun np_tan :: "pyfloat \<Rightarrow> pyfloat" where
  "np_tan (Fin x) = Fin (tan x)"
| "np_tan x = NaN"

section \<open>Station solver: \<^verbatim>\<open>minimum_curvature\<close> (utils.py, lines 6 to 44)\<close>

text \<open>
  The function is split at its comments. \<open>cos_beta_raw\<close> is line 19, evaluated left to
  right; \<open>clamp_cos\<close> is the pair of guards of lines 22 and 23; \<open>ratio_factor\<close> is lines 28
  to 31; \<open>displacements\<close> is lines 34 to 36; \<open>dogleg_severity\<close> is lines 39 to 42. Division
  by the literal 2 cannot raise and is written with \<open>fdiv\<close>; the two divisions by a
  variable go through \<open>py_div\<close>. Lines 34 to 36 call \<^verbatim>\<open>sin\<close> and \<^verbatim>\<open>cos\<close> on the four
  angles, some of them twice; \<open>displacements\<close> makes each call once, in the order of
  its first occurrence, which raises the same error in the same cases.
\<close>

definition cos_beta_raw :: "pyfloat \<Rightarrow> pyfloat \<Rightarrow> pyfloat \<Rightarrow> pyfloat \<Rightarrow> error + pyfloat" where
  "cos_beta_raw i1 a1 i2 a2 =
     bind_r (cos_py (fsub i2 i1)) (\<lambda>ci.
     bind_r (sin_py i1) (\<lambda>s1.
     bind_r (sin_py i2) (\<lambda>s2.
     bind_r (cos_py (fsub a2 a1)) (\<lambda>ca.
       Inr (fsub ci (fmul (fmul s1 s2) (fsub (Fin 1) ca)))))))"

definition clamp_cos :: "pyfloat \<Rightarrow> pyfloat" where
  "clamp_cos c =
     (let c1 = (if fgt c (Fin 1) then Fin 1 else c)
      in if flt c1 (Fin (- 1)) then Fin (- 1) else c1)"

definition ratio_factor :: "pyfloat \<Rightarrow> error + pyfloat" where
  "ratio_factor beta =
     (if flt beta (Fin (1 / 10000)) then Inr (Fin 1)
      else bind_r (py_div (Fin 2) beta) (\<lambda>q. Inr (fmul q (np_tan (fdiv beta (Fin 2))))))"

definition displacements ::
  "pyfloat \<Rightarrow> pyfloat \<Rightarrow> pyfloat \<Rightarrow> pyfloat \<Rightarrow> pyfloat \<Rightarrow> pyfloat \<Rightarrow>
     error + (pyfloat \<times> pyfloat \<times> pyfloat)" where
  "displacements delta_md i1 a1 i2 a2 rf =
     (let half = fdiv delta_md (Fin 2) in
      bind_r (sin_py i1) (\<lambda>si1. bind_r (cos_py a1) (\<lambda>ca1.
      bind_r (sin_py i2) (\<lambda>si2. bind_r (cos_py a2) (\<lambda>ca2.
      bind_r (sin_py a1) (\<lambda>sa1. bind_r (sin_py a2) (\<lambda>sa2.
      bind_r (cos_py i1) (\<lambda>ci1. bind_r (cos_py i2) (\<lambda>ci2.
        Inr (fmul (fmul half (fadd (fmul si1 ca1) (fmul si2 ca2))) rf,
             fmul (fmul half (fadd (fmul si1 sa1) (fmul si2 sa2))) rf,
             fmul (fmul half (fadd ci1 ci2)) rf))))))))))"

definition dogleg_severity :: "pyfloat \<Rightarrow> pyfloat \<Rightarrow> error + pyfloat" where
  "dogleg_severity beta delta_md =
     (if feq delta_md (Fin 0) then Inr (Fin 0)
      else py_div (fmul (degrees beta) (Fin 30)) delta_md)"

text \<open>The result is the tuple \<open>(delta_north, delta_east, delta_tvd, dls)\<close>.\<close>

definition minimum_curvature ::
  "pyfloat \<Rightarrow> pyfloat \<Rightarrow> pyfloat \<Rightarrow> pyfloat \<Rightarrow> pyfloat \<Rightarrow> pyfloat \<Rightarrow>
     error + (pyfloat \<times> pyfloat \<times> pyfloat \<times> pyfloat)" where
  "minimum_curvature md1 inc1 azi1 md2 inc2 azi2 =
     (let i1 = radians inc1; a1 = radians azi1;
          i2 = radians inc2; a2 = radians azi2;
          delta_md = fsub md2 md1
      in bind_r (cos_beta_raw i1 a1 i2 a2) (\<lambda>cos_beta.
         bind_r (acos_py (clamp_cos cos_beta)) (\<lambda>beta.
         bind_r (ratio_factor beta) (\<lambda>rf.
         bind_r (displacements delta_md i1 a1 i2 a2 rf) (\<lambda>(delta_north, delta_east, delta_tvd).
         bind_r (dogleg_severity beta delta_md) (\<lambda>dls.
           Inr (delta_north, delta_east, delta_tvd, dls)))))))"


text \<open>
  Closed forms of the solver on finite inputs, used to state what the solver returns
  there: the value before clamping, the dogleg angle and the ratio factor. At the
  dogleg angle \<open>pi\<close> the tangent of HOL is \<open>tan (pi / 2) = 0\<close>, where the float
  tangent is a large finite number; nothing below depends on the ratio factor at that
  angle.
\<close>

definition rad_real :: "real \<Rightarrow> real" where
  "rad_real x = x * (pi / 180)"

definition cos_beta_real :: "real \<Rightarrow> real \<Rightarrow> real \<Rightarrow> real \<Rightarrow> real" where
  "cos_beta_real inc1 azi1 inc2 azi2 =
     cos (rad_real inc2 - rad_real inc1)
       - sin (rad_real inc1) * sin (rad_real inc2) * (1 - cos (rad_real azi2 - rad_real azi1))"

definition clamp_real :: "real \<Rightarrow> real" where
  "clamp_real c = (let c1 = (if c > 1 then 1 else c) in if c1 < - 1 then - 1 else c1)"

definition beta_real :: "real \<Rightarrow> real \<Rightarrow> real \<Rightarrow> real \<Rightarrow> real" where
  "beta_real inc1 azi1 inc2 azi2 = arccos (clamp_real (cos_beta_real inc1 azi1 inc2 azi2))"

definition rf_real :: "real \<Rightarrow> real" where
  "rf_real beta = (if beta < 1 / 10000 then 1 else 2 / beta * tan (beta / 2))"

section \<open>Trajectory accumulator: the survey stage of \<^verbatim>\<open>process_survey_file\<close> (utils.py, lines 68 to 109)\<close>

text \<open>
  A measurement is a row \<open>(MD, Inc, Azi)\<close> of the sheet, its cells already numeric, so
  that the three \<^verbatim>\<open>float(...)\<close> conversions of lines 87 to 89 are the identity. A station
  is the \<^verbatim>\<open>TrajectoryStation\<close> of models.py without its database fields; the type of its
  numbers is a parameter, since the plot reads stations back as plain numbers.
\<close>

type_synonym measurement = "pyfloat \<times> pyfloat \<times> pyfloat"

record 'a station =
  md :: 'a
  inclination :: 'a
  azimuth :: 'a
  tvd :: 'a
  north :: 'a
  east :: 'a
  dls :: 'a

text \<open>
  \<^verbatim>\<open>pd.read_excel\<close> labels the rows \<open>0, 1, 2, ...\<close> in file order, and
  \<^verbatim>\<open>sort_values('MD')\<close> reorders the rows but keeps each row's label; \<^verbatim>\<open>iterrows\<close> then
  yields \<open>(label, row)\<close>. A data frame is therefore a list of labelled rows. The sort is
  ascending with NaN last. Rows of equal depth keep their relative order here, as the
  specification asks; for pairwise distinct depths every sort gives the same result.
\<close>

type_synonym dataframe = "(nat \<times> measurement) list"

definition read_excel :: "measurement list \<Rightarrow> dataframe" where
  "read_excel rows = enumerate 0 rows"

fun md_key :: "pyfloat \<Rightarrow> nat \<times> real" where
  "md_key NInf = (0, 0)"
| "md_key (Fin x) = (1, x)"
| "md_key PInf = (2, 0)"
| "md_key NaN = (3, 0)"

definition depth_of :: "measurement \<Rightarrow> pyfloat" where
  "depth_of row = fst row"

definition inc_of :: "measurement \<Rightarrow> pyfloat" where
  "inc_of row = fst (snd row)"

definition azi_of :: "measurement \<Rightarrow> pyfloat" where
  "azi_of row = snd (snd row)"

definition sort_values :: "dataframe \<Rightarrow> dataframe" where
  "sort_values df = sort_key (\<lambda>r. md_key (depth_of (snd r))) df"

record loop_state =
  current_n :: pyfloat
  current_e :: pyfloat
  current_tvd :: pyfloat
  prev_md :: pyfloat
  prev_inc :: pyfloat
  prev_azi :: pyfloat
  stations_to_create :: "pyfloat station list"

definition initial_state :: loop_state where
  "initial_state =
     \<lparr>current_n = Fin 0, current_e = Fin 0, current_tvd = Fin 0,
      prev_md = Fin 0, prev_inc = Fin 0, prev_azi = Fin 0, stations_to_create = []\<rparr>"

text \<open>The guard of line 91: \<^verbatim>\<open>index == 0 and md == 0\<close>.\<close>

definition is_tie_in :: "nat \<Rightarrow> pyfloat \<Rightarrow> bool" where
  "is_tie_in index m = (index = 0 \<and> feq m (Fin 0))"

text \<open>One round of the loop body, lines 87 to 106.\<close>

definition survey_step :: "loop_state \<Rightarrow> nat \<times> measurement \<Rightarrow> error + loop_state" where
  "survey_step s r =
     (case r of (index, m, inc, azi) \<Rightarrow>
        bind_r
          (if is_tie_in index m then Inr (s, Fin 0)
           else bind_r (minimum_curvature (prev_md s) (prev_inc s) (prev_azi s) m inc azi)
                  (\<lambda>(d_n, d_e, d_tvd, d). Inr
                     (s\<lparr>current_n := fadd (current_n s) d_n,
                        current_e := fadd (current_e s) d_e,
                        current_tvd := fadd (current_tvd s) d_tvd\<rparr>, d)))
          (\<lambda>(s1, d). Inr
             (s1\<lparr>stations_to_create := stations_to_create s1 @
                    [\<lparr>md = m, inclination = inc, azimuth = azi,
                      tvd = current_tvd s1, north = current_n s1, east = current_e s1,
                      dls = d\<rparr>],
                  prev_md := m, prev_inc := inc, prev_azi := azi\<rparr>)))"

fun survey_loop :: "loop_state \<Rightarrow> dataframe \<Rightarrow> error + loop_state" where
  "survey_loop s [] = Inr s"
| "survey_loop s (r # rows) = bind_r (survey_step s r) (\<lambda>s1. survey_loop s1 rows)"

text \<open>Lines 76 to 106: sort, run the loop, hand the stations to \<^verbatim>\<open>bulk_create\<close>.\<close>

definition accumulate :: "measurement list \<Rightarrow> error + pyfloat station list" where
  "accumulate rows =
     bind_r (survey_loop initial_state (sort_values (read_excel rows)))
       (\<lambda>s. Inr (stations_to_create s))"

text \<open>
  Lines 68 to 74 in front of it: the workbook must have a sheet \<^verbatim>\<open>Survey\<close> with the
  columns \<^verbatim>\<open>MD\<close>, \<^verbatim>\<open>Inc\<close> and \<^verbatim>\<open>Azi\<close>. An \<open>Inl\<close> result is the \<^verbatim>\<open>except\<close> branch of line
  154, which marks the import as failed and returns \<^verbatim>\<open>False\<close>; an \<open>Inr\<close> result is the
  list of stations stored, with the import marked as processed.
\<close>

definition required_cols :: "string list" where
  "required_cols = [''MD'', ''Inc'', ''Azi'']"

definition survey_stage :: "string list \<Rightarrow> string list \<Rightarrow> measurement list \<Rightarrow> error + pyfloat station list" where
  "survey_stage sheet_names columns rows =
     (if ''Survey'' \<notin> set sheet_names then Inl SurveySheetMissing
      else if \<not> list_all (\<lambda>col. col \<in> set columns) required_cols then Inl SurveyColumnsMissing
      else accumulate rows)"


section \<open>Geometry sanitizer: the mechanical stage of \<^verbatim>\<open>process_survey_file\<close> (utils.py, lines 118 to 143)\<close>

text \<open>
  A cell of the \<^verbatim>\<open>Mechanical\<close> sheet is a number, a string, or some other object (a
  timestamp, for instance) of which only its \<^verbatim>\<open>str()\<close> text matters here. An empty
  cell is read by pandas as the number NaN.

  Two Python built-ins are not code of this repository and are parameters of the
  model: \<open>parse\<close> is \<^verbatim>\<open>float\<close> on a string (\<open>None\<close> when it raises \<^verbatim>\<open>ValueError\<close>), and
  \<open>fmt\<close> is \<^verbatim>\<open>str\<close> on a finite float.
\<close>

datatype cell = CNum pyfloat | CStr string | COther string

abbreviation empty_cell :: cell where
  "empty_cell \<equiv> CNum NaN"

fun py_float :: "(string \<Rightarrow> pyfloat option) \<Rightarrow> cell \<Rightarrow> error + pyfloat" where
  "py_float parse (CNum x) = Inr x"
| "py_float parse (CStr s) = (case parse s of Some x \<Rightarrow> Inr x | None \<Rightarrow> Inl FloatValueError)"
| "py_float parse (COther t) = Inl FloatTypeError"

fun py_str :: "(real \<Rightarrow> string) \<Rightarrow> cell \<Rightarrow> string" where
  "py_str fmt (CStr s) = s"
| "py_str fmt (CNum (Fin x)) = fmt x"
| "py_str fmt (CNum PInf) = ''inf''"
| "py_str fmt (CNum NInf) = ''-inf''"
| "py_str fmt (CNum NaN) = ''nan''"
| "py_str fmt (COther t) = t"

text \<open>Lines 123 and 124: a string has its commas replaced by points.\<close>

definition replace_comma :: "string \<Rightarrow> string" where
  "replace_comma s = map (\<lambda>c. if c = CHR '','' then CHR ''.'' else c) s"

fun normalize_cell :: "cell \<Rightarrow> cell" where
  "normalize_cell (CStr s) = CStr (replace_comma s)"
| "normalize_cell c = c"

text \<open>
  Lines 121 to 134. The \<^verbatim>\<open>except (ValueError, TypeError)\<close> clause turns the two errors
  of \<^verbatim>\<open>float\<close> into the fallback; any other error would leave the \<^verbatim>\<open>try\<close> block.
\<close>

definition sanitize_diameter :: "(string \<Rightarrow> pyfloat option) \<Rightarrow> cell \<Rightarrow> error + pyfloat" where
  "sanitize_diameter parse raw_diameter =
     (case py_float parse (normalize_cell raw_diameter) of
        Inr diameter_val \<Rightarrow>
          Inr (if fgt diameter_val (Fin 100) then fdiv diameter_val (Fin 1000) else diameter_val)
      | Inl e \<Rightarrow>
          if e = FloatValueError \<or> e = FloatTypeError then Inr (Fin (85 / 10)) else Inl e)"

text \<open>Line 142: \<^verbatim>\<open>color=str(row['Color'])\<close>.\<close>

definition sanitize_color :: "(real \<Rightarrow> string) \<Rightarrow> cell \<Rightarrow> string" where
  "sanitize_color fmt raw_color = py_str fmt raw_color"

definition sanitize ::
  "(string \<Rightarrow> pyfloat option) \<Rightarrow> (real \<Rightarrow> string) \<Rightarrow> cell \<Rightarrow> cell \<Rightarrow> error + (pyfloat \<times> string)" where
  "sanitize parse fmt raw_diameter raw_color =
     bind_r (sanitize_diameter parse raw_diameter) (\<lambda>d. Inr (d, sanitize_color fmt raw_color))"

text \<open>The default of the \<^verbatim>\<open>color\<close> field of \<^verbatim>\<open>BoreholeGeometry\<close> (models.py, line 132).\<close>

definition color_field_default :: string where
  "color_field_default = ''#808080''"

text \<open>
  A reader of plain decimal literals (an optional sign, digits, at most one point, at
  least one digit), on which \<^verbatim>\<open>float\<close> agrees. It instantiates \<open>parse\<close> in examples.
\<close>

definition is_digit :: "char \<Rightarrow> bool" where
  "is_digit c = (48 \<le> (of_char c :: nat) \<and> (of_char c :: nat) \<le> 57)"

fun digits_val :: "string \<Rightarrow> nat \<Rightarrow> nat option" where
  "digits_val [] acc = Some acc"
| "digits_val (c # cs) acc =
     (if is_digit c then digits_val cs (acc * 10 + (of_char c - 48)) else None)"

definition parse_unsigned :: "string \<Rightarrow> real option" where
  "parse_unsigned s =
     (let ip = takeWhile (\<lambda>c. c \<noteq> CHR ''.'') s;
          fp = (case dropWhile (\<lambda>c. c \<noteq> CHR ''.'') s of [] \<Rightarrow> [] | p # f \<Rightarrow> f)
      in if ip = [] \<and> fp = [] then None
         else case (digits_val ip 0, digits_val fp 0) of
                (Some a, Some b) \<Rightarrow> Some (real a + real b / 10 ^ length fp)
              | _ \<Rightarrow> None)"

fun decimal_literal :: "string \<Rightarrow> pyfloat option" where
  "decimal_literal [] = None"
| "decimal_literal (c # cs) =
     (if c = CHR ''-'' then map_option (\<lambda>x. Fin (- x)) (parse_unsigned cs)
      else if c = CHR ''+'' then map_option Fin (parse_unsigned cs)
      else map_option Fin (parse_unsigned (c # cs)))"

section \<open>Path segment interpolator: \<^verbatim>\<open>get_path_segment\<close> (visualizer.py, lines 57 to 105)\<close>

text \<open>
  The plot reads the stations back from the store, ordered by depth, into four numpy
  arrays. The stored numbers are taken to be finite and are reals here; the four
  parallel arrays are one list of stations, and the four parallel result lists
  \<^verbatim>\<open>final_e\<close>, \<^verbatim>\<open>final_n\<close>, \<^verbatim>\<open>final_t\<close>, \<^verbatim>\<open>final_m\<close> are one list of points paired with
  their depth.

  \<^verbatim>\<open>np.searchsorted(a, v)\<close> on an ascending array is the number of leading elements
  below \<open>v\<close>.
\<close>

type_synonym point = "real \<times> real \<times> real"

definition coords :: "real station \<Rightarrow> point" where
  "coords s = (east s, north s, tvd s)"

definition searchsorted :: "real list \<Rightarrow> real \<Rightarrow> nat" where
  "searchsorted a v = length (takeWhile (\<lambda>m. m < v) a)"

text \<open>Lines 79 to 85, and again lines 97 to 103: the point at depth \<open>d\<close> between two stations.\<close>

definition interpolate_between :: "real station \<Rightarrow> real station \<Rightarrow> real \<Rightarrow> point \<times> real" where
  "interpolate_between s0 s1 d =
     (let m0 = md s0; m1 = md s1;
          factor = (if m1 > m0 then (d - m0) / (m1 - m0) else 0)
      in ((east s0 + (east s1 - east s0) * factor,
           north s0 + (north s1 - north s0) * factor,
           tvd s0 + (tvd s1 - tvd s0) * factor), d))"

text \<open>Lines 76 to 85, and again lines 95 to 103: the points appended for the depth \<open>d\<close>.\<close>

definition bracket_point :: "real station list \<Rightarrow> real \<Rightarrow> (point \<times> real) list" where
  "bracket_point stations d =
     (let idx_prev = int (searchsorted (map md stations) d) - 1
      in if idx_prev \<ge> 0 \<and> idx_prev < int (length stations) - 1
         then [interpolate_between (stations ! nat idx_prev) (stations ! (nat idx_prev + 1)) d]
         else [])"

definition get_path_segment :: "real station list \<Rightarrow> real \<Rightarrow> real \<Rightarrow> point list" where
  "get_path_segment stations start_d end_d =
     (let seg = filter (\<lambda>s. md s \<ge> start_d \<and> md s \<le> end_d) stations;
          first_pts = (if seg = [] \<or> md (hd seg) > start_d
                       then bracket_point stations start_d else []);
          final = first_pts @ map (\<lambda>s. (coords s, md s)) seg;
          last_pts = (if final \<noteq> [] \<and> snd (last final) < end_d
                      then bracket_point stations end_d else [])
      in map fst (final @ last_pts))"

text \<open>
  What the specification asks of an end point: the position at depth \<open>d\<close> is that of a
  station at depth \<open>d\<close>, or the linear interpolation of the two neighbouring stations
  that have \<open>d\<close> strictly between their depths.
\<close>

definition spec_position_at :: "real station list \<Rightarrow> real \<Rightarrow> point \<Rightarrow> bool" where
  "spec_position_at stations d p =
     ((\<exists>s \<in> set stations. md s = d \<and> p = coords s) \<or>
      (\<exists>i \<in> {..< length stations - 1}.
         md (stations ! i) < d \<and> d < md (stations ! (i + 1)) \<and>
         p = (let s0 = stations ! i; s1 = stations ! (i + 1);
                  t = (d - md s0) / (md s1 - md s0)
              in (east s0 + (east s1 - east s0) * t,
                  north s0 + (north s1 - north s0) * t,
                  tvd s0 + (tvd s1 - tvd s0) * t))))"

section \<open>Geometry compositor: \<^verbatim>\<open>generate_3d_plot\<close> (visualizer.py, lines 6 to 174)\<close>














section \<open>Example data\<close>

text \<open>
  Three stations at depths 0, 1000 and 2000, and three geometry records, the second of
  which lies wholly below the deepest station.
\<close>

definition example_stations :: "real station list" where
  "example_stations =
     [\<lparr>md = 0, inclination = 0, azimuth = 0, tvd = 0, north = 0, east = 0, dls = 0\<rparr>,
      \<lparr>md = 1000, inclination = 2, azimuth = 45, tvd = 1000, north = 10, east = 20, dls = 0\<rparr>,
      \<lparr>md = 2000, inclination = 3, azimuth = 90, tvd = 2000, north = 30, east = 60, dls = 0\<rparr>]"


section \<open>The solver on finite inputs\<close>

lemma bind_r_Inr: "bind_r (Inr v) f = f v"
  by (simp add: bind_r_def)


lemma radians_Fin: "radians (Fin x) = Fin (rad_real x)"
  by (simp add: radians_def rad_real_def)

lemma degrees_Fin: "degrees (Fin x) = Fin (x * (180 / pi))"
  by (simp add: degrees_def)

lemma fsub_Fin: "fsub (Fin a) (Fin b) = Fin (a - b)"
  by (simp add: fsub_def)

lemma feq_Fin: "feq (Fin a) (Fin b) = (a = b)"
  by (simp add: feq_def)

lemma fgt_Fin: "fgt (Fin a) (Fin b) = (a > b)"
  by (simp add: fgt_def)

lemma py_div_Fin:
  "py_div (Fin a) (Fin b) = (if b = 0 then Inl ZeroDivisionError else Inr (Fin (a / b)))"
  by (simp add: py_div_def feq_Fin)

lemma clamp_real_range: "- 1 \<le> clamp_real c \<and> clamp_real c \<le> 1"
  by (simp add: clamp_real_def Let_def)

lemma clamp_cos_Fin: "clamp_cos (Fin c) = Fin (clamp_real c)"
  by (simp add: clamp_cos_def clamp_real_def Let_def fgt_Fin)

lemma cos_beta_raw_Fin:
  "cos_beta_raw (Fin (rad_real inc1)) (Fin (rad_real azi1)) (Fin (rad_real inc2)) (Fin (rad_real azi2))
     = Inr (Fin (cos_beta_real inc1 azi1 inc2 azi2))"
  by (simp add: cos_beta_raw_def cos_beta_real_def fsub_Fin bind_r_Inr)

lemma beta_real_range: "0 \<le> beta_real inc1 azi1 inc2 azi2 \<and> beta_real inc1 azi1 inc2 azi2 \<le> pi"
  unfolding beta_real_def using clamp_real_range arccos_lbound arccos_ubound by blast

lemma acos_clamp_Fin:
  "acos_py (clamp_cos (Fin (cos_beta_real inc1 azi1 inc2 azi2)))
     = Inr (Fin (beta_real inc1 azi1 inc2 azi2))"
  using clamp_real_range [of "cos_beta_real inc1 azi1 inc2 azi2"]
  by (simp add: clamp_cos_Fin beta_real_def)

lemma ratio_factor_Fin: "0 \<le> b \<Longrightarrow> ratio_factor (Fin b) = Inr (Fin (rf_real b))"
  by (auto simp add: ratio_factor_def rf_real_def py_div_Fin bind_r_Inr)

lemma displacements_Fin:
  "displacements (Fin dm) (Fin i1) (Fin a1) (Fin i2) (Fin a2) (Fin rf) =
     Inr (Fin (dm / 2 * (sin i1 * cos a1 + sin i2 * cos a2) * rf),
          Fin (dm / 2 * (sin i1 * sin a1 + sin i2 * sin a2) * rf),
          Fin (dm / 2 * (cos i1 + cos i2) * rf))"
  by (simp add: displacements_def Let_def bind_r_Inr)

lemma dogleg_severity_Fin:
  "dogleg_severity (Fin b) (Fin dm) = Inr (Fin (if dm = 0 then 0 else b * (180 / pi) * 30 / dm))"
  by (simp add: dogleg_severity_def feq_Fin py_div_Fin degrees_Fin)

text \<open>On finite inputs the solver returns, and this is what it returns.\<close>

lemma minimum_curvature_Fin:
  "minimum_curvature (Fin md1) (Fin inc1) (Fin azi1) (Fin md2) (Fin inc2) (Fin azi2) =
     (let i1 = rad_real inc1; a1 = rad_real azi1;
          i2 = rad_real inc2; a2 = rad_real azi2;
          b = beta_real inc1 azi1 inc2 azi2; rf = rf_real b; dm = md2 - md1
      in Inr (Fin (dm / 2 * (sin i1 * cos a1 + sin i2 * cos a2) * rf),
              Fin (dm / 2 * (sin i1 * sin a1 + sin i2 * sin a2) * rf),
              Fin (dm / 2 * (cos i1 + cos i2) * rf),
              Fin (if dm = 0 then 0 else b * (180 / pi) * 30 / dm)))"
  unfolding minimum_curvature_def Let_def
  using beta_real_range [of inc1 azi1 inc2 azi2]
  by (simp add: cos_beta_raw_Fin acos_clamp_Fin ratio_factor_Fin bind_r_Inr
      radians_Fin fsub_Fin displacements_Fin dogleg_severity_Fin del: acos_py.simps)

lemma dls_formula_nonneg: "0 \<le> b \<Longrightarrow> 0 < dm \<Longrightarrow> 0 \<le> b * (180 / pi) * 30 / (dm::real)"
  by (simp add: less_imp_le)

section \<open>The solver on inputs that are not finite\<close>


lemma cos_beta_raw_inf:
  "is_inf i1 \<or> is_inf i2 \<Longrightarrow> cos_beta_raw i1 a1 i2 a2 = Inl MathDomainError"
  by (cases i1; cases i2) (simp_all add: is_inf_def cos_beta_raw_def fsub_def bind_r_def)












text \<open>
  C10. For finite inputs with \<open>md1 \<le> md2\<close> the solver returns, the dogleg angle \<open>b\<close> it
  takes the inverse cosine for lies in \<open>[0, pi]\<close>, and the dogleg severity \<open>d\<close> it returns
  is not negative: it is \<open>degrees b * 30 / (md2 - md1)\<close> when \<open>md1 < md2\<close> and \<open>0\<close> when
  \<open>md2 = md1\<close>.
\<close>

theorem dls_nonneg:
  assumes "md1 \<le> md2"
  shows "\<exists>c b dn de dt d.
           cos_beta_raw (radians (Fin inc1)) (radians (Fin azi1))
                        (radians (Fin inc2)) (radians (Fin azi2)) = Inr c
         \<and> acos_py (clamp_cos c) = Inr (Fin b) \<and> 0 \<le> b \<and> b \<le> pi
         \<and> minimum_curvature (Fin md1) (Fin inc1) (Fin azi1) (Fin md2) (Fin inc2) (Fin azi2)
             = Inr (dn, de, dt, Fin d)
         \<and> 0 \<le> d
         \<and> (md1 < md2 \<longrightarrow> d = b * (180 / pi) * 30 / (md2 - md1))
         \<and> (md2 = md1 \<longrightarrow> d = 0)"
proof -
  let ?b = "beta_real inc1 azi1 inc2 azi2"
  let ?d = "if md2 - md1 = 0 then 0 else ?b * (180 / pi) * 30 / (md2 - md1)"
  have c: "cos_beta_raw (radians (Fin inc1)) (radians (Fin azi1))
          (radians (Fin inc2)) (radians (Fin azi2)) = Inr (Fin (cos_beta_real inc1 azi1 inc2 azi2))"
    by (simp only: radians_Fin cos_beta_raw_Fin)
  have b: "0 \<le> ?b" "?b \<le> pi"
    using beta_real_range by blast+
  have d: "0 \<le> ?d"
    using assms b(1) dls_formula_nonneg [of ?b "md2 - md1"] by (cases "md2 = md1") simp_all
  have "\<exists>dn de dt. minimum_curvature (Fin md1) (Fin inc1) (Fin azi1) (Fin md2) (Fin inc2) (Fin azi2)
             = Inr (dn, de, dt, Fin ?d)"
    by (simp only: minimum_curvature_Fin Let_def) blast
  then obtain dn de dt where
    "minimum_curvature (Fin md1) (Fin inc1) (Fin azi1) (Fin md2) (Fin inc2) (Fin azi2)
             = Inr (dn, de, dt, Fin ?d)"
    by blast
  moreover have "md1 < md2 \<longrightarrow> ?d = ?b * (180 / pi) * 30 / (md2 - md1)"
    by simp
  moreover have "md2 = md1 \<longrightarrow> ?d = 0"
    by simp
  ultimately show ?thesis
    using c acos_clamp_Fin b d by blast
qed

theorem dls_nonneg_witness:
  "(0::real) \<le> 100 \<and>
   (\<exists>dn de dt d. minimum_curvature (Fin 0) (Fin 0) (Fin 0) (Fin 100) (Fin 0) (Fin 0)
                    = Inr (dn, de, dt, Fin d) \<and> 0 \<le> d)"
  using dls_nonneg [of 0 100 0 0 0 0] by auto


section \<open>The loop of the accumulator\<close>

lemma map_snd_insort_key:
  "map snd (insort_key (\<lambda>r. k (snd r)) x xs) = insort_key k (snd x) (map snd xs)"
  by (induction xs) simp_all

lemma map_snd_sort_key:
  "map snd (sort_key (\<lambda>r. k (snd r)) xs) = sort_key k (map snd xs)"
  by (induction xs) (simp_all add: map_snd_insort_key)

lemma rows_of_sort_values:
  "map snd (sort_values (read_excel rows)) = sort_key (\<lambda>r. md_key (depth_of r)) rows"
  unfolding sort_values_def read_excel_def
  using map_snd_sort_key [of "\<lambda>r. md_key (depth_of r)" "enumerate 0 rows"] by simp

lemma inj_md_key: "md_key x = md_key y \<Longrightarrow> x = y"
  by (cases x; cases y) simp_all

lemma feq_zero: "feq m (Fin 0) = (m = Fin 0)"
  by (auto simp add: feq_def)

lemma survey_step_label:
  "\<not> feq (depth_of r) (Fin 0) \<Longrightarrow> survey_step s (l, r) = survey_step s (l', r)"
  by (cases r) (simp add: survey_step_def is_tie_in_def depth_of_def)

lemma survey_step_tie_in:
  "survey_step initial_state (l, Fin 0, Fin i, Fin a) =
   survey_step initial_state (0, Fin 0, Fin i, Fin a)"
  by (simp add: survey_step_def is_tie_in_def feq_Fin minimum_curvature_Fin Let_def
      bind_r_Inr initial_state_def)

lemma survey_loop_labels:
  "map snd df = map snd df' \<Longrightarrow> \<forall>r \<in> set df. \<not> feq (depth_of (snd r)) (Fin 0) \<Longrightarrow>
     survey_loop s df = survey_loop s df'"
proof (induction df arbitrary: df' s)
  case Nil
  then show ?case by simp
next
  case (Cons r df)
  then obtain r' df2 where d: "df' = r' # df2" "snd r' = snd r" "map snd df = map snd df2"
    by (cases df') auto
  have "survey_step s r = survey_step s r'"
    using Cons.prems(2) d(2) survey_step_label [of "snd r" s "fst r" "fst r'"]
    by (cases r; cases r') simp
  moreover have "\<And>s1. survey_loop s1 df = survey_loop s1 df2"
    using Cons.IH [OF d(3)] Cons.prems(2) by simp
  ultimately show ?case by (simp add: d(1))
qed

lemma key_above_zero:
  "\<not> flt m (Fin 0) \<Longrightarrow> md_key (Fin 0) \<le> md_key m"
  by (cases m) simp_all




lemma rad_real_values: "rad_real 0 = 0" "rad_real 90 = pi / 2"
  by (simp_all add: rad_real_def)

lemma beta_real_zero: "beta_real 0 0 0 0 = 0"
  by (simp add: beta_real_def cos_beta_real_def clamp_real_def rad_real_values)

lemma beta_real_quarter: "beta_real 0 0 90 0 = pi / 2"
  by (simp add: beta_real_def cos_beta_real_def clamp_real_def rad_real_values)

lemma rf_real_zero: "rf_real 0 = 1"
  by (simp add: rf_real_def)

lemma rf_real_quarter: "rf_real (pi / 2) = 4 / pi"
proof -
  have "\<not> pi / 2 < 1 / 10000" using pi_ge_two by simp
  moreover have "tan (pi / 2 / 2) = 1" using tan_45 by simp
  ultimately show ?thesis by (simp add: rf_real_def)
qed

lemma minimum_curvature_vertical:
  "minimum_curvature (Fin 0) (Fin 0) (Fin 0) (Fin 100) (Fin 0) (Fin 0)
     = Inr (Fin 0, Fin 0, Fin 100, Fin 0)"
  by (simp add: minimum_curvature_Fin Let_def rad_real_values beta_real_zero rf_real_zero)

lemma minimum_curvature_build:
  "minimum_curvature (Fin 0) (Fin 0) (Fin 0) (Fin 100) (Fin 90) (Fin 0)
     = Inr (Fin (200 / pi), Fin 0, Fin (200 / pi), Fin 27)"
  by (simp add: minimum_curvature_Fin Let_def rad_real_values beta_real_quarter rf_real_quarter)

lemma minimum_curvature_zero_length:
  "minimum_curvature (Fin m) (Fin i1) (Fin a1) (Fin m) (Fin i2) (Fin a2)
     = Inr (Fin 0, Fin 0, Fin 0, Fin 0)"
  by (simp add: minimum_curvature_Fin Let_def)

lemma sort_two_tied:
  "sort_values (read_excel [(Fin 100, i1, a1), (Fin 100, i2, a2)])
     = [(0, Fin 100, i1, a1), (1, Fin 100, i2, a2)]"
  by (simp add: sort_values_def read_excel_def depth_of_def enumerate_simps)

lemma accumulate_AB:
  "accumulate [(Fin 100, Fin 0, Fin 0), (Fin 100, Fin 90, Fin 0)] =
     Inr [\<lparr>md = Fin 100, inclination = Fin 0, azimuth = Fin 0,
           tvd = Fin 100, north = Fin 0, east = Fin 0, dls = Fin 0\<rparr>,
          \<lparr>md = Fin 100, inclination = Fin 90, azimuth = Fin 0,
           tvd = Fin 100, north = Fin 0, east = Fin 0, dls = Fin 0\<rparr>]"
  by (simp add: accumulate_def sort_two_tied survey_step_def is_tie_in_def feq_Fin
      minimum_curvature_vertical minimum_curvature_zero_length bind_r_Inr initial_state_def)

lemma accumulate_BA:
  "accumulate [(Fin 100, Fin 90, Fin 0), (Fin 100, Fin 0, Fin 0)] =
     Inr [\<lparr>md = Fin 100, inclination = Fin 90, azimuth = Fin 0,
           tvd = Fin (200 / pi), north = Fin (200 / pi), east = Fin 0, dls = Fin 27\<rparr>,
          \<lparr>md = Fin 100, inclination = Fin 0, azimuth = Fin 0,
           tvd = Fin (200 / pi), north = Fin (200 / pi), east = Fin 0, dls = Fin 0\<rparr>]"
  by (simp add: accumulate_def sort_two_tied survey_step_def is_tie_in_def feq_Fin
      minimum_curvature_build minimum_curvature_zero_length bind_r_Inr initial_state_def)

section \<open>The trajectory accumulator on an empty sheet\<close>

lemma accumulate_Nil: "accumulate [] = Inr []"
  by (simp add: accumulate_def read_excel_def sort_values_def bind_r_Inr initial_state_def)

text \<open>
  C3, as amended. With no measurement the accumulator does not fail: the loop body never
  runs and the result is the empty list of stations, which the import stores and reports
  as processed. The survey stage fails only when the sheet \<^verbatim>\<open>Survey\<close> or one of its
  three columns is missing.
\<close>

theorem empty_survey_succeeds:
  "accumulate [] = Inr [] \<and>
   survey_stage sheet_names columns [] =
     (if ''Survey'' \<notin> set sheet_names then Inl SurveySheetMissing
      else if \<not> list_all (\<lambda>col. col \<in> set columns) required_cols then Inl SurveyColumnsMissing
      else Inr [])"
  by (simp add: survey_stage_def accumulate_Nil)

theorem empty_survey_succeeds_witness:
  "survey_stage [''Header'', ''Survey''] [''MD'', ''Inc'', ''Azi''] [] = Inr []"
  using empty_survey_succeeds [of "[''Header'', ''Survey'']" "[''MD'', ''Inc'', ''Azi'']"]
  by (simp add: required_cols_def)

text \<open>
  C3, as stated, fails: a workbook with the sheet and its columns and no row gives no
  error.
\<close>

theorem empty_survey_no_error_counterexample:
  "survey_stage [''Survey''] [''MD'', ''Inc'', ''Azi''] [] = Inr []
   \<and> \<not> isl (survey_stage [''Survey''] [''MD'', ''Inc'', ''Azi''] [])"
  by (simp add: survey_stage_def required_cols_def accumulate_Nil)

section \<open>The accumulator on inputs that are not finite\<close>




section \<open>The accumulator on permuted input\<close>

text \<open>
  C5, as amended. When the depths are pairwise distinct and none is negative, and a
  measurement at depth zero has a finite inclination and azimuth, the accumulator
  returns the same result for every permutation of the measurements.
\<close>

theorem accumulate_permutation:
  assumes d: "distinct (map depth_of xs)"
      and nn: "\<forall>r \<in> set xs. \<not> flt (depth_of r) (Fin 0)"
      and fin: "\<forall>r \<in> set xs. depth_of r = Fin 0 \<longrightarrow> is_finite (inc_of r) \<and> is_finite (azi_of r)"
      and p: "mset ys = mset xs"
  shows "accumulate ys = accumulate xs"
proof -
  define key where "key = (\<lambda>r. md_key (depth_of r))"
  define df where "df = sort_values (read_excel xs)"
  define df' where "df' = sort_values (read_excel ys)"
  have dx: "distinct xs" and inj_d: "inj_on depth_of (set xs)"
    using d by (simp_all add: distinct_map)
  have inj: "inj_on key (set xs)"
    using inj_d inj_md_key unfolding key_def inj_on_def by blast
  have rows: "map snd df = sort_key key xs"
    unfolding df_def key_def by (rule rows_of_sort_values)
  have "sort_key key xs = sort_key key ys"
    using p inj by (intro sort_key_eq_sort_key) simp_all
  then have rows': "map snd df' = sort_key key xs"
    unfolding df'_def key_def using rows_of_sort_values [of ys] by simp
  have "distinct (map key (sort_key key xs))"
    using dx inj by (simp add: distinct_map)
  then have strict: "sorted_wrt (<) (map key (map snd df))"
    using rows by (simp add: strict_sorted_iff)
  have sub: "set (map snd df) = set xs"
    using rows by simp
  have loop: "survey_loop initial_state df' = survey_loop initial_state df"
  proof (cases df)
    case Nil
    with rows rows' show ?thesis by simp
  next
    case (Cons lr dft)
    obtain l r where lr: "lr = (l, r)" by (cases lr)
    have "map snd df' = r # map snd dft"
      using Cons lr rows rows' by simp
    then obtain l' dft' where
      c': "df' = (l', r) # dft'" and tl: "map snd dft' = map snd dft"
      by (cases df') force+
    have rx: "r \<in> set xs"
      using sub Cons lr by auto
    have above: "\<forall>q \<in> set dft. key r < key (snd q)"
      using strict Cons lr by simp
    have "md_key (Fin 0) \<le> key r"
      unfolding key_def using nn rx key_above_zero by blast
    then have nz: "\<forall>q \<in> set dft. \<not> feq (depth_of (snd q)) (Fin 0)"
      using above unfolding key_def feq_zero by fastforce
    have nz': "\<forall>q \<in> set dft'. \<not> feq (depth_of (snd q)) (Fin 0)"
    proof
      fix q assume "q \<in> set dft'"
      then have "snd q \<in> set (map snd dft)" using tl by (metis imageI set_map)
      then show "\<not> feq (depth_of (snd q)) (Fin 0)" using nz by auto
    qed
    have step: "survey_step initial_state (l', r) = survey_step initial_state (l, r)"
    proof (cases "depth_of r = Fin 0")
      case True
      with fin rx have "is_finite (inc_of r)" "is_finite (azi_of r)" by blast+
      then obtain i a where "inc_of r = Fin i" "azi_of r = Fin a"
        by (metis is_finite.elims(2))
      with True have "r = (Fin 0, Fin i, Fin a)"
        by (cases r) (simp add: depth_of_def inc_of_def azi_of_def)
      then show ?thesis
        using survey_step_tie_in [of l' i a] survey_step_tie_in [of l i a] by simp
    next
      case False
      then show ?thesis by (simp add: survey_step_label feq_zero)
    qed
    have "\<And>s1. survey_loop s1 dft' = survey_loop s1 dft"
      using survey_loop_labels [OF tl nz'] by simp
    with step Cons lr c' show ?thesis by simp
  qed
  then show ?thesis
    by (simp add: accumulate_def df_def df'_def)
qed

theorem accumulate_permutation_witness:
  "accumulate [(Fin 100, Fin 90, Fin 0), (Fin 0, Fin 0, Fin 0)]
     = accumulate [(Fin 0, Fin 0, Fin 0), (Fin 100, Fin 90, Fin 0)]"
  using accumulate_permutation
    [of "[(Fin 0, Fin 0, Fin 0), (Fin 100, Fin 90, Fin 0)]"
        "[(Fin 100, Fin 90, Fin 0), (Fin 0, Fin 0, Fin 0)]"]
  by (simp add: depth_of_def inc_of_def azi_of_def)

text \<open>
  C5, as stated, fails: two measurements at the same depth are both sorted by depth in
  either order, and the sort keeps the order of the file, so the solver sees different
  pairs. Whatever sort is used, it sees the same keys in both files and so applies the
  same reordering to both.
\<close>

theorem accumulate_tied_depths_counterexample:
  "sorted (map (\<lambda>r. md_key (depth_of r)) [(Fin 100, Fin 0, Fin 0), (Fin 100, Fin 90, Fin 0)])
   \<and> mset [(Fin 100, Fin 90, Fin 0), (Fin 100, Fin 0, Fin 0)]
       = mset [(Fin 100, Fin 0, Fin 0), (Fin 100, Fin 90, Fin 0)]
   \<and> accumulate [(Fin 100, Fin 0, Fin 0), (Fin 100, Fin 90, Fin 0)] =
       Inr [\<lparr>md = Fin 100, inclination = Fin 0, azimuth = Fin 0,
             tvd = Fin 100, north = Fin 0, east = Fin 0, dls = Fin 0\<rparr>,
            \<lparr>md = Fin 100, inclination = Fin 90, azimuth = Fin 0,
             tvd = Fin 100, north = Fin 0, east = Fin 0, dls = Fin 0\<rparr>]
   \<and> accumulate [(Fin 100, Fin 90, Fin 0), (Fin 100, Fin 0, Fin 0)] =
       Inr [\<lparr>md = Fin 100, inclination = Fin 90, azimuth = Fin 0,
             tvd = Fin (200 / pi), north = Fin (200 / pi), east = Fin 0, dls = Fin 27\<rparr>,
            \<lparr>md = Fin 100, inclination = Fin 0, azimuth = Fin 0,
             tvd = Fin (200 / pi), north = Fin (200 / pi), east = Fin 0, dls = Fin 0\<rparr>]
   \<and> accumulate [(Fin 100, Fin 90, Fin 0), (Fin 100, Fin 0, Fin 0)]
       \<noteq> accumulate [(Fin 100, Fin 0, Fin 0), (Fin 100, Fin 90, Fin 0)]"
  by (simp add: accumulate_AB accumulate_BA depth_of_def)

section \<open>The tie-in guard\<close>

lemma accumulate_zero_then_build:
  "accumulate [(Fin 100, Fin 90, Fin 0), (Fin 0, Fin 0, Fin 0)] =
     Inr [\<lparr>md = Fin 0, inclination = Fin 0, azimuth = Fin 0,
           tvd = Fin 0, north = Fin 0, east = Fin 0, dls = Fin 0\<rparr>,
          \<lparr>md = Fin 100, inclination = Fin 90, azimuth = Fin 0,
           tvd = Fin (200 / pi), north = Fin (200 / pi), east = Fin 0, dls = Fin 27\<rparr>]"
  by (simp add: accumulate_def sort_values_def read_excel_def depth_of_def enumerate_simps
      survey_step_def is_tie_in_def feq_Fin minimum_curvature_build
      minimum_curvature_zero_length bind_r_Inr initial_state_def)

text \<open>
  C6 fails on the code. The guard of line 91 compares the label of the row, which is its
  place in the file, not its place after sorting. In the file below the measurement at
  depth zero is the second row: after sorting it comes first but carries the label 1,
  the guard is false, and the station is computed by the solver on a segment of length
  zero. The station it gets is the same (by \<open>survey_step_tie_in\<close> for every finite
  first row at depth zero): all offsets and the dogleg severity are zero.
\<close>

theorem tie_in_guard_on_shuffled_input:
  "sort_values (read_excel [(Fin 100, Fin 90, Fin 0), (Fin 0, Fin 0, Fin 0)])
     = [(1, Fin 0, Fin 0, Fin 0), (0, Fin 100, Fin 90, Fin 0)]
   \<and> \<not> is_tie_in 1 (Fin 0)
   \<and> survey_step initial_state (1, Fin 0, Fin 0, Fin 0)
       = bind_r (minimum_curvature (Fin 0) (Fin 0) (Fin 0) (Fin 0) (Fin 0) (Fin 0))
           (\<lambda>(d_n, d_e, d_tvd, d). Inr
              (initial_state\<lparr>stations_to_create :=
                 [\<lparr>md = Fin 0, inclination = Fin 0, azimuth = Fin 0,
                   tvd = fadd (Fin 0) d_tvd, north = fadd (Fin 0) d_n, east = fadd (Fin 0) d_e,
                   dls = d\<rparr>],
                 current_n := fadd (Fin 0) d_n, current_e := fadd (Fin 0) d_e,
                 current_tvd := fadd (Fin 0) d_tvd\<rparr>))
   \<and> accumulate [(Fin 100, Fin 90, Fin 0), (Fin 0, Fin 0, Fin 0)] =
       Inr [\<lparr>md = Fin 0, inclination = Fin 0, azimuth = Fin 0,
             tvd = Fin 0, north = Fin 0, east = Fin 0, dls = Fin 0\<rparr>,
            \<lparr>md = Fin 100, inclination = Fin 90, azimuth = Fin 0,
             tvd = Fin (200 / pi), north = Fin (200 / pi), east = Fin 0, dls = Fin 27\<rparr>]"
  by (simp add: sort_values_def read_excel_def depth_of_def enumerate_simps is_tie_in_def
      survey_step_def initial_state_def minimum_curvature_zero_length bind_r_Inr
      accumulate_zero_then_build)

section \<open>The geometry sanitizer\<close>

lemma decimal_literal_9625: "decimal_literal ''9625'' = Some (Fin 9625)"
  by (simp add: parse_unsigned_def is_digit_def)
lemma decimal_literal_9_625: "decimal_literal ''9.625'' = Some (Fin (9625 / 1000))"
  by (simp add: parse_unsigned_def is_digit_def)
lemma decimal_literal_text: "decimal_literal ''not-a-number'' = None"
  by (simp add: parse_unsigned_def is_digit_def)

text \<open>
  C7. For every reader \<open>parse\<close> that reads \<^verbatim>\<open>"9625"\<close> as 9625 and \<^verbatim>\<open>"9.625"\<close> as 9.625, the
  sanitizer returns 9.625 for the string \<^verbatim>\<open>"9625"\<close> (above 100, divided by 1000) and
  9.625 for the string \<^verbatim>\<open>"9,625"\<close> (the comma replaced first); and for every raw value
  on which \<^verbatim>\<open>float\<close> raises, it returns the fallback 8.5.
\<close>

theorem sanitize_diameter_examples:
  "(parse ''9625'' = Some (Fin 9625) \<longrightarrow>
      sanitize_diameter parse (CStr ''9625'') = Inr (Fin (9625 / 1000))) \<and>
   (parse ''9.625'' = Some (Fin (9625 / 1000)) \<longrightarrow>
      sanitize_diameter parse (CStr ''9,625'') = Inr (Fin (9625 / 1000))) \<and>
   ((\<exists>e. py_float parse (normalize_cell raw) = Inl e) \<longrightarrow>
      sanitize_diameter parse raw = Inr (Fin (85 / 10)))"
proof (intro conjI impI)
  assume "parse ''9625'' = Some (Fin 9625)"
  then show "sanitize_diameter parse (CStr ''9625'') = Inr (Fin (9625 / 1000))"
    by (simp add: sanitize_diameter_def replace_comma_def fgt_Fin)
next
  assume "parse ''9.625'' = Some (Fin (9625 / 1000))"
  then show "sanitize_diameter parse (CStr ''9,625'') = Inr (Fin (9625 / 1000))"
    by (simp add: sanitize_diameter_def replace_comma_def fgt_Fin)
next
  assume "\<exists>e. py_float parse (normalize_cell raw) = Inl e"
  then obtain e where e: "py_float parse (normalize_cell raw) = Inl e" by blast
  then have "e = FloatValueError \<or> e = FloatTypeError"
    by (cases "normalize_cell raw") (auto split: option.splits)
  with e show "sanitize_diameter parse raw = Inr (Fin (85 / 10))"
    by (auto simp add: sanitize_diameter_def)
qed

theorem sanitize_diameter_examples_witness:
  "decimal_literal ''9625'' = Some (Fin 9625) \<and>
   sanitize_diameter decimal_literal (CStr ''9625'') = Inr (Fin (9625 / 1000)) \<and>
   decimal_literal ''9.625'' = Some (Fin (9625 / 1000)) \<and>
   sanitize_diameter decimal_literal (CStr ''9,625'') = Inr (Fin (9625 / 1000)) \<and>
   py_float decimal_literal (normalize_cell (CStr ''not-a-number'')) = Inl FloatValueError \<and>
   sanitize_diameter decimal_literal (CStr ''not-a-number'') = Inr (Fin (85 / 10))"
proof -
  have n: "py_float decimal_literal (normalize_cell (CStr ''not-a-number'')) = Inl FloatValueError"
    using decimal_literal_text by (simp add: replace_comma_def)
  show ?thesis
    using sanitize_diameter_examples [of decimal_literal "CStr ''not-a-number''"] decimal_literal_9625 decimal_literal_9_625 n
    by blast
qed

text \<open>
  C8 fails on the code. The raw colour of an empty cell is the number NaN, and line 142
  stores \<^verbatim>\<open>str\<close> of it, the text \<^verbatim>\<open>nan\<close>, not the grey \<^verbatim>\<open>#808080\<close> that the \<^verbatim>\<open>color\<close> field
  declares as its default.
\<close>

theorem absent_color_is_nan:
  "sanitize_color fmt empty_cell = ''nan'' \<and>
   sanitize_color fmt empty_cell \<noteq> color_field_default \<and>
   sanitize parse fmt (CNum (Fin (85 / 10))) empty_cell = Inr (Fin (85 / 10), ''nan'')"
  by (simp add: sanitize_color_def color_field_default_def sanitize_def sanitize_diameter_def
      fgt_Fin bind_r_Inr)

section \<open>The path segment interpolator\<close>

lemma hd_least:
  "sorted_wrt (<) (map f xs) \<Longrightarrow> x \<in> set xs \<Longrightarrow> (f (hd xs) :: real) \<le> f x"
  by (cases xs) auto

lemma last_greatest:
  "sorted_wrt (<) (map f xs) \<Longrightarrow> x \<in> set xs \<Longrightarrow> (f x :: real) \<le> f (last xs)"
proof (induction xs)
  case Nil
  then show ?case by simp
next
  case (Cons a xs)
  show ?case
  proof (cases "xs = []")
    case True
    with Cons.prems show ?thesis by simp
  next
    case False
    then have l: "last xs \<in> set xs" by simp
    from Cons.prems have "\<forall>y\<in>set xs. f a < f y" by simp
    with l have al: "f a < f (last xs)" by blast
    from Cons.prems have s: "sorted_wrt (<) (map f xs)" by simp
    from Cons.prems have "x = a \<or> x \<in> set xs" by simp
    then show ?thesis
    proof
      assume "x = a"
      with al False show ?thesis by simp
    next
      assume "x \<in> set xs"
      with Cons.IH s False show ?thesis by simp
    qed
  qed
qed

lemma sorted_filter_md:
  "sorted_wrt (<) (map f xs) \<Longrightarrow> sorted_wrt (<) (map f (filter P xs))"
  by (simp add: sorted_wrt_map sorted_wrt_filter)

lemma bracket_point_spec:
  assumes ne: "stations \<noteq> []"
      and lo: "md (hd stations) < d"
      and hi: "d \<le> md (last stations)"
      and no: "\<forall>s \<in> set stations. md s \<noteq> d"
  shows "\<exists>p. bracket_point stations d = [(p, d)] \<and> spec_position_at stations d p"
proof -
  define ms where "ms = map md stations"
  define k where "k = length (takeWhile (\<lambda>m. m < d) ms)"
  have len: "length ms = length stations"
    by (simp add: ms_def)
  have k_pos: "0 < k"
    using ne lo by (cases stations) (auto simp add: k_def ms_def)
  have "last ms = md (last stations)" "ms \<noteq> []"
    using ne by (simp_all add: ms_def last_map)
  then have "\<not> (\<forall>m \<in> set ms. m < d)"
    using hi by (metis last_in_set not_le)
  then have "takeWhile (\<lambda>m. m < d) ms \<noteq> ms"
    by (simp add: takeWhile_eq_all_conv)
  then have "k \<noteq> length ms"
    unfolding k_def by (metis takeWhile_eq_take take_all_iff le_refl)
  moreover have "k \<le> length ms"
    unfolding k_def by (rule length_takeWhile_le)
  ultimately have k_lt: "k < length stations"
    using len by simp
  have below: "ms ! (k - 1) < d"
  proof -
    have j: "k - 1 < length (takeWhile (\<lambda>m. m < d) ms)"
      using k_pos by (simp add: k_def)
    then have "takeWhile (\<lambda>m. m < d) ms ! (k - 1) = ms ! (k - 1)"
      by (rule takeWhile_nth)
    moreover have "takeWhile (\<lambda>m. m < d) ms ! (k - 1) \<in> set (takeWhile (\<lambda>m. m < d) ms)"
      using j by (rule nth_mem)
    ultimately show ?thesis
      by (metis set_takeWhileD)
  qed
  have "length (takeWhile (\<lambda>m. m < d) ms) < length ms"
    using k_lt len by (simp add: k_def)
  then have "\<not> ms ! k < d"
    unfolding k_def by (rule nth_length_takeWhile)
  moreover have "ms ! k \<noteq> d"
    using no k_lt by (simp add: ms_def)
  ultimately have above: "d < ms ! k"
    by simp
  define s0 where "s0 = stations ! (k - 1)"
  define s1 where "s1 = stations ! k"
  have m0: "md s0 < d"
    using below k_lt by (simp add: ms_def s0_def)
  have m1: "d < md s1"
    using above k_lt by (simp add: ms_def s1_def)
  have idx: "nat (int k - 1) = k - 1" "nat (int k - 1) + 1 = k"
    using k_pos by auto
  have cond: "int k - 1 \<ge> 0 \<and> int k - 1 < int (length stations) - 1"
    using k_pos k_lt by simp
  have "searchsorted (map md stations) d = k"
    by (simp add: searchsorted_def k_def ms_def)
  then have bp: "bracket_point stations d = [interpolate_between s0 s1 d]"
    unfolding bracket_point_def Let_def s0_def s1_def using cond idx by simp
  define t where "t = (d - md s0) / (md s1 - md s0)"
  define p where "p = (east s0 + (east s1 - east s0) * t,
                       north s0 + (north s1 - north s0) * t,
                       tvd s0 + (tvd s1 - tvd s0) * t)"
  have ib: "interpolate_between s0 s1 d = (p, d)"
    using m0 m1 by (simp add: interpolate_between_def Let_def p_def t_def)
  have i: "k - 1 \<in> {..< length stations - 1}"
    using k_pos k_lt by auto
  have k1: "k - 1 + 1 = k"
    using k_pos by simp
  have br: "md (stations ! (k - 1)) < d \<and> d < md (stations ! (k - 1 + 1))"
    using m0 m1 unfolding k1 s0_def s1_def by simp
  have pe: "p = (let s0 = stations ! (k - 1); s1 = stations ! (k - 1 + 1);
                           t = (d - md s0) / (md s1 - md s0)
                       in (east s0 + (east s1 - east s0) * t,
                           north s0 + (north s1 - north s0) * t,
                           tvd s0 + (tvd s1 - tvd s0) * t))"
    unfolding k1 Let_def p_def t_def s0_def s1_def by (rule refl)
  have "spec_position_at stations d p"
    unfolding spec_position_at_def using i br pe by blast
  with bp ib show ?thesis by simp
qed


text \<open>
  C1. For stations of strictly increasing depth and a range \<open>start_d \<le> end_d\<close> inside
  their coverage, the polyline is not empty, its first point is the position the
  specification asks for at \<open>start_d\<close> and its last point the one at \<open>end_d\<close>: the
  station at that depth if there is one, and otherwise the linear interpolation of the
  two stations around it.
\<close>

theorem path_segment_endpoints:
  assumes inc: "sorted_wrt (<) (map md stations)"
      and ne: "stations \<noteq> []"
      and lo: "md (hd stations) \<le> start_d"
      and se: "start_d \<le> end_d"
      and hi: "end_d \<le> md (last stations)"
  shows "get_path_segment stations start_d end_d \<noteq> []
       \<and> spec_position_at stations start_d (hd (get_path_segment stations start_d end_d))
       \<and> spec_position_at stations end_d (last (get_path_segment stations start_d end_d))"
proof -
  define seg where "seg = filter (\<lambda>s. md s \<ge> start_d \<and> md s \<le> end_d) stations"
  define first_pts where
    "first_pts = (if seg = [] \<or> md (hd seg) > start_d then bracket_point stations start_d else [])"
  define final where "final = first_pts @ map (\<lambda>s. (coords s, md s)) seg"
  define last_pts where
    "last_pts = (if final \<noteq> [] \<and> snd (last final) < end_d then bracket_point stations end_d else [])"
  have res: "get_path_segment stations start_d end_d = map fst (final @ last_pts)"
    by (simp add: get_path_segment_def Let_def seg_def first_pts_def final_def last_pts_def)
  have seg_sub: "set seg \<subseteq> set stations"
    by (auto simp add: seg_def)
  have seg_rng: "\<forall>s \<in> set seg. start_d \<le> md s \<and> md s \<le> end_d"
    by (simp add: seg_def)
  have seg_sorted: "sorted_wrt (<) (map md seg)"
    unfolding seg_def using inc by (rule sorted_filter_md)
  have in_seg: "\<And>s. s \<in> set stations \<Longrightarrow> start_d \<le> md s \<Longrightarrow> md s \<le> end_d \<Longrightarrow> s \<in> set seg"
    by (simp add: seg_def)
  \<comment> \<open>the first point\<close>
  have first: "\<exists>p. hd final = (p, start_d) \<and> final \<noteq> [] \<and> spec_position_at stations start_d p"
  proof (cases "seg = [] \<or> md (hd seg) > start_d")
    case True
    have no: "\<forall>s \<in> set stations. md s \<noteq> start_d"
    proof
      fix s assume s: "s \<in> set stations"
      show "md s \<noteq> start_d"
      proof
        assume eq: "md s = start_d"
        with s se have m: "s \<in> set seg" by (simp add: in_seg)
        then have "md (hd seg) \<le> md s"
          by (rule hd_least [OF seg_sorted])
        with True m eq show False by auto
      qed
    qed
    have "hd stations \<in> set stations" using ne by simp
    with no lo have lo': "md (hd stations) < start_d" by force
    have hi': "start_d \<le> md (last stations)" using se hi by simp
    obtain p where p: "bracket_point stations start_d = [(p, start_d)]"
                      "spec_position_at stations start_d p"
      using bracket_point_spec [OF ne lo' hi' no] by blast
    with True show ?thesis by (simp add: final_def first_pts_def)
  next
    case False
    then have n: "seg \<noteq> []" and le: "md (hd seg) \<le> start_d" by auto
    from n have h: "hd seg \<in> set seg" by simp
    with seg_rng le have eq: "md (hd seg) = start_d" by force
    have "spec_position_at stations start_d (coords (hd seg))"
      unfolding spec_position_at_def using h seg_sub eq by blast
    with False n eq show ?thesis
      by (simp add: final_def first_pts_def hd_map)
  qed
  then obtain p where p: "hd final = (p, start_d)" "final \<noteq> []"
      "spec_position_at stations start_d p" by blast
  have hd_res: "hd (map fst (final @ last_pts)) = p"
    using p by (simp add: hd_map)
  \<comment> \<open>the depth of the last point so far\<close>
  have last_depth: "snd (last final) = (if seg = [] then start_d else md (last seg))"
  proof (cases "seg = []")
    case True
    then have "final = first_pts" by (simp add: final_def)
    moreover have "length first_pts \<le> 1"
      by (simp add: first_pts_def bracket_point_def Let_def)
    ultimately have "final = [hd final]"
      using p(2) by (cases final) auto
    with p(1) True show ?thesis by (metis last.simps snd_conv)
  next
    case False
    then show ?thesis by (simp add: final_def last_map)
  qed
  \<comment> \<open>the last point\<close>
  have "\<exists>q. last (final @ last_pts) = (q, end_d) \<and> spec_position_at stations end_d q"
  proof (cases "snd (last final) < end_d")
    case True
    have no: "\<forall>s \<in> set stations. md s \<noteq> end_d"
    proof
      fix s assume s: "s \<in> set stations"
      show "md s \<noteq> end_d"
      proof
        assume eq: "md s = end_d"
        with s se have m: "s \<in> set seg" by (simp add: in_seg)
        then have "md s \<le> md (last seg)"
          by (rule last_greatest [OF seg_sorted])
        moreover from m have "seg \<noteq> []" by auto
        ultimately show False using True eq last_depth by simp
      qed
    qed
    have "start_d < end_d"
    proof (cases "seg = []")
      case True
      with \<open>snd (last final) < end_d\<close> last_depth show ?thesis by simp
    next
      case False
      then have "last seg \<in> set seg" by simp
      with seg_rng have "start_d \<le> md (last seg)" by blast
      with False \<open>snd (last final) < end_d\<close> last_depth show ?thesis by simp
    qed
    with lo have lo': "md (hd stations) < end_d" by simp
    obtain q where q: "bracket_point stations end_d = [(q, end_d)]"
                      "spec_position_at stations end_d q"
      using bracket_point_spec [OF ne lo' hi no] by blast
    with True p(2) show ?thesis by (simp add: last_pts_def)
  next
    case False
    then have lp: "last_pts = []" by (simp add: last_pts_def)
    show ?thesis
    proof (cases "seg = []")
      case True
      with False last_depth se have eq: "start_d = end_d" by simp
      have "final = first_pts" using True by (simp add: final_def)
      moreover have "length first_pts \<le> 1"
        by (simp add: first_pts_def bracket_point_def Let_def)
      ultimately have "final = [hd final]"
        using p(2) by (cases final) auto
      then have "last final = (p, start_d)" using p(1) by (metis last.simps)
      with lp eq p(3) show ?thesis by simp
    next
      case n: False
      then have l: "last seg \<in> set seg" by simp
      with seg_rng have "md (last seg) \<le> end_d" by blast
      with False n last_depth have eq: "md (last seg) = end_d" by simp
      have "spec_position_at stations end_d (coords (last seg))"
        unfolding spec_position_at_def using l seg_sub eq by blast
      with lp n eq show ?thesis by (simp add: final_def last_map)
    qed
  qed
  then obtain q where q: "last (final @ last_pts) = (q, end_d)"
      "spec_position_at stations end_d q" by blast
  have nonempty: "final @ last_pts \<noteq> []" using p(2) by simp
  then have "last (map fst (final @ last_pts)) = fst (last (final @ last_pts))"
    by (rule last_map)
  then have "last (map fst (final @ last_pts)) = q"
    using q(1) by simp
  with hd_res p(3) q(2) nonempty res show ?thesis by simp
qed

theorem path_segment_endpoints_witness:
  "sorted_wrt (<) (map md example_stations) \<and> example_stations \<noteq> []
   \<and> md (hd example_stations) \<le> 500 \<and> (500::real) \<le> 1500 \<and> 1500 \<le> md (last example_stations)
   \<and> get_path_segment example_stations 500 1500 \<noteq> []
   \<and> spec_position_at example_stations 500 (hd (get_path_segment example_stations 500 1500))
   \<and> spec_position_at example_stations 1500 (last (get_path_segment example_stations 500 1500))"
  using path_segment_endpoints [of example_stations 500 1500]
  by (simp add: example_stations_def)

section \<open>The geometry compositor\<close>






end
